theory Spec2Isabelle
  imports Complex_Main "HOL-Library.AList" "HOL-Library.Sublist"
begin

section \<open>JavaScript values\<close>

text \<open>
  The agent of \<^verbatim>\<open>packages/hardhat/lib/x402Agent.ts\<close> handles values of type
  \<^verbatim>\<open>any\<close>: the request body, the decoded response body, the decoded payment header
  and whatever a callee throws. They are modelled by one datatype of JavaScript values.
  An object is the list of its own properties in insertion order; an instance of
  \<^verbatim>\<open>Error\<close> carries its name, its message and its further own properties.
  Functions and symbols are left out.
\<close>

datatype jsnum = NaN | Infinity_pos | Infinity_neg | Num rat

datatype jsval =
    JUndefined
  | JNull
  | JBool bool
  | JNum jsnum
  | JStr string
  | JArr "jsval list"
  | JObj "(string \<times> jsval) list"
  | JError string string "(string \<times> jsval) list"
  | JBigInt int

text \<open>Truthiness (\<^verbatim>\<open>ToBoolean\<close>): what \<^verbatim>\<open>if (v)\<close>, \<^verbatim>\<open>!v\<close> and \<^verbatim>\<open>v || w\<close> test.\<close>

fun truthy :: "jsval \<Rightarrow> bool" where
  "truthy JUndefined = False"
| "truthy JNull = False"
| "truthy (JBool b) = b"
| "truthy (JNum NaN) = False"
| "truthy (JNum Infinity_pos) = True"
| "truthy (JNum Infinity_neg) = True"
| "truthy (JNum (Num q)) = (q \<noteq> 0)"
| "truthy (JStr s) = (s \<noteq> [])"
| "truthy (JArr xs) = True"
| "truthy (JObj ps) = True"
| "truthy (JError n m ps) = True"
| "truthy (JBigInt i) = (i \<noteq> 0)"

text \<open>The \<^verbatim>\<open>typeof\<close> operator; \<^verbatim>\<open>typeof null\<close> is \<^verbatim>\<open>"object"\<close>.\<close>

fun typeof :: "jsval \<Rightarrow> string" where
  "typeof JUndefined = ''undefined''"
| "typeof JNull = ''object''"
| "typeof (JBool b) = ''boolean''"
| "typeof (JNum n) = ''number''"
| "typeof (JStr s) = ''string''"
| "typeof (JArr xs) = ''object''"
| "typeof (JObj ps) = ''object''"
| "typeof (JError n m ps) = ''object''"
| "typeof (JBigInt i) = ''bigint''"

text \<open>\<^verbatim>\<open>a || b\<close> on values.\<close>

definition js_or :: "jsval \<Rightarrow> jsval \<Rightarrow> jsval" where
  "js_or a b = (if truthy a then a else b)"

text \<open>\<^verbatim>\<open>new Error(message)\<close> and the \<^verbatim>\<open>TypeError\<close> the engine raises.\<close>

definition new_Error :: "string \<Rightarrow> jsval" where
  "new_Error message = JError ''Error'' message []"

definition new_TypeError :: "string \<Rightarrow> jsval" where
  "new_TypeError message = JError ''TypeError'' message []"

text \<open>
  Reading a property, \<^verbatim>\<open>v.k\<close>. On \<^verbatim>\<open>undefined\<close> and \<^verbatim>\<open>null\<close> the read throws a
  \<^verbatim>\<open>TypeError\<close> (\<open>Inl\<close>). A missing property reads as \<^verbatim>\<open>undefined\<close>. The program reads
  only the names \<^verbatim>\<open>message\<close>, \<^verbatim>\<open>response\<close>, \<^verbatim>\<open>data\<close>, \<^verbatim>\<open>error\<close>, \<^verbatim>\<open>txHash\<close>,
  \<^verbatim>\<open>amount\<close>, \<^verbatim>\<open>recipient\<close> and \<^verbatim>\<open>chainId\<close>, none of which a primitive or an array has.
\<close>

fun get_member :: "jsval \<Rightarrow> string \<Rightarrow> jsval + jsval" where
  "get_member JUndefined k =
     Inl (new_TypeError (''Cannot read properties of undefined (reading '' @ [CHR 0x27] @ k @ [CHR 0x27] @ '')''))"
| "get_member JNull k =
     Inl (new_TypeError (''Cannot read properties of null (reading '' @ [CHR 0x27] @ k @ [CHR 0x27] @ '')''))"
| "get_member (JObj ps) k = Inr (case map_of ps k of None \<Rightarrow> JUndefined | Some v \<Rightarrow> v)"
| "get_member (JError n m ps) k =
     Inr (if k = ''message'' then JStr m
          else if k = ''name'' then JStr n
          else (case map_of ps k of None \<Rightarrow> JUndefined | Some v \<Rightarrow> v))"
| "get_member v k = Inr JUndefined"

text \<open>Optional chaining, \<^verbatim>\<open>v?.k\<close>: \<^verbatim>\<open>undefined\<close> when \<open>v\<close> is \<^verbatim>\<open>undefined\<close> or \<^verbatim>\<open>null\<close>.\<close>

definition opt_member :: "jsval \<Rightarrow> string \<Rightarrow> jsval" where
  "opt_member v k = (case get_member v k of Inl e \<Rightarrow> JUndefined | Inr x \<Rightarrow> x)"

text \<open>\<^verbatim>\<open>String.prototype.startsWith\<close>.\<close>

definition startsWith :: "string \<Rightarrow> string \<Rightarrow> bool" where
  "startsWith s searchString = (take (length searchString) s = searchString)"

section \<open>Data model of the agent\<close>

text \<open>
  \<^verbatim>\<open>X402RequestOptions\<close>: every field is optional. An omitted \<^verbatim>\<open>method\<close>,
  \<^verbatim>\<open>headers\<close> or \<^verbatim>\<open>parseJson\<close> is \<open>None\<close>; an omitted \<^verbatim>\<open>body\<close> is \<open>JUndefined\<close>.
  A \<^verbatim>\<open>Record<string, string>\<close> is the list of its properties in insertion order.
\<close>

record X402RequestOptions =
  "method" :: "string option"
  headers :: "(string \<times> string) list option"
  body :: jsval
  parseJson :: "bool option"

text \<open>The \<^verbatim>\<open>RequestInit\<close> handed to fetch; \<open>ri_body = None\<close> when no body was set.\<close>

record RequestInit =
  ri_method :: string
  ri_headers :: "(string \<times> string) list"
  ri_body :: "jsval option"

text \<open>
  The \<^verbatim>\<open>Response\<close> of the Fetch API, as far as the agent reads it: the status line,
  the lookup \<^verbatim>\<open>headers.get\<close> (\<open>None\<close> for \<^verbatim>\<open>null\<close>) and what awaiting \<^verbatim>\<open>json()\<close> and
  \<^verbatim>\<open>text()\<close> gives, a thrown value (\<open>Inl\<close>) or the decoded body.
\<close>

record Response =
  r_status :: nat
  r_statusText :: string
  r_headers_get :: "string \<Rightarrow> string option"
  r_json :: "jsval + jsval"
  r_text :: "jsval + string"

record X402Payment =
  txHash :: jsval
  amount :: jsval
  recipient :: jsval
  chainId :: jsval
  raw :: jsval

record X402Response =
  data :: jsval
  payment :: X402Payment
  status :: nat
  statusText :: string

text \<open>
  A fetch function performs input and output: it takes the world \<open>'w\<close> and returns the
  new one, with the response or the thrown value (a rejected promise is \<open>Inl\<close>).
\<close>

type_synonym 'w fetch_fn = "string \<Rightarrow> RequestInit \<Rightarrow> 'w \<Rightarrow> (jsval + Response) \<times> 'w"

record Account =
  address :: string

record 'w X402Agent =
  account :: Account
  fetchWithPayment :: "'w fetch_fn"

text \<open>
  The built-ins and the \<^verbatim>\<open>x402-fetch\<close> decoder that \<^verbatim>\<open>callEndpoint\<close> uses are not part
  of the repository; they are parameters. \<^verbatim>\<open>JSON.stringify\<close> returns a string or throws
  (\<open>Inl\<close>), as it does on an object that holds a bigint or a reference to itself;
  \<open>ToString\<close> is the conversion a template literal applies to a value that is not a
  string; the decoder returns or throws.
\<close>

record Lib =
  JSON_stringify :: "jsval \<Rightarrow> jsval + string"
  ToString :: "jsval \<Rightarrow> string"
  decodeXPaymentResponse :: "string \<Rightarrow> jsval + jsval"

section \<open>The agent\<close>

text \<open>
  The constructor (lines 72-79). \<^verbatim>\<open>privateKeyToAccount\<close> of viem, \<^verbatim>\<open>wrapFetchWithPayment\<close>
  of x402-fetch and the global \<^verbatim>\<open>fetch\<close> are parameters; the first may throw.
\<close>

definition X402Agent_new ::
  "(string \<Rightarrow> jsval + Account) \<Rightarrow> ('w fetch_fn \<Rightarrow> Account \<Rightarrow> 'w fetch_fn) \<Rightarrow> 'w fetch_fn \<Rightarrow>
   string \<Rightarrow> jsval + 'w X402Agent" where
  "X402Agent_new privateKeyToAccount wrapFetchWithPayment fetch privateKey =
     (if \<not> startsWith privateKey ''0x'' then Inl (new_Error ''Private key must start with 0x'')
      else case privateKeyToAccount privateKey of
             Inl e \<Rightarrow> Inl e
           | Inr acct \<Rightarrow>
               Inr \<lparr>account = acct, fetchWithPayment = wrapFetchWithPayment fetch acct\<rparr>)"

text \<open>The getter \<^verbatim>\<open>address\<close> (lines 84-86).\<close>

definition get_address :: "'w X402Agent \<Rightarrow> string" where
  "get_address this = address (account this)"

text \<open>
  Lines 134-154 of \<^verbatim>\<open>callEndpoint\<close>: the defaults of the destructuring and the fetch
  options. An object is always truthy, so the test \<^verbatim>\<open>!fetchOptions.headers\<close> of line 147
  never holds once \<^verbatim>\<open>headers\<close> has its default. The assignment of line 150 is
  \<open>AList.update\<close>: it replaces the value of an existing property and appends a new one.
  When \<^verbatim>\<open>JSON.stringify\<close> of line 145 throws, so do these lines (\<open>Inl\<close>), and no fetch
  options result.
\<close>

definition fetchOptions_of :: "Lib \<Rightarrow> X402RequestOptions \<Rightarrow> jsval + RequestInit" where
  "fetchOptions_of lib options =
     (let method' = (case method options of None \<Rightarrow> ''GET'' | Some m \<Rightarrow> m);
          headers' = (case headers options of None \<Rightarrow> [] | Some h \<Rightarrow> h);
          body' = body options;
          fetchOptions = \<lparr>ri_method = method', ri_headers = headers', ri_body = None\<rparr>
      in if truthy body' then
           (if typeof body' = ''object'' then
              (case JSON_stringify lib body' of
                 Inl error \<Rightarrow> Inl error
               | Inr json \<Rightarrow>
                   Inr (fetchOptions\<lparr>ri_body := Some (JStr json),
                                     ri_headers := AList.update ''Content-Type'' ''application/json''
                                                     (ri_headers fetchOptions)\<rparr>))
            else Inr (fetchOptions\<lparr>ri_body := Some body'\<rparr>))
         else Inr fetchOptions)"

text \<open>
  The catch clause (lines 179-183). Reading \<^verbatim>\<open>error.message\<close> of a thrown \<^verbatim>\<open>undefined\<close>
  or \<^verbatim>\<open>null\<close> throws a \<^verbatim>\<open>TypeError\<close>, which leaves the method as it is. The result is
  always a thrown value.
\<close>

definition template_string :: "Lib \<Rightarrow> jsval \<Rightarrow> string" where
  "template_string lib v = (case v of JStr s \<Rightarrow> s | _ \<Rightarrow> ToString lib v)"

definition catch_rethrow :: "Lib \<Rightarrow> jsval \<Rightarrow> jsval" where
  "catch_rethrow lib error =
     (case get_member error ''message'' of
        Inl typeError \<Rightarrow> typeError
      | Inr message \<Rightarrow>
          (let errorMessage =
                 js_or message
                   (js_or (case get_member error ''response'' of
                             Inl typeError \<Rightarrow> JUndefined
                           | Inr response \<Rightarrow> opt_member (opt_member response ''data'') ''error'')
                      (JStr ''Unknown error''))
           in new_Error (''X402 request failed: '' @ template_string lib errorMessage)))"

text \<open>
  \<^verbatim>\<open>callEndpoint\<close> (lines 133-184). The fetch options are prepared before the
  \<^verbatim>\<open>try\<close> block of line 156: what \<^verbatim>\<open>JSON.stringify\<close> throws leaves the method as it
  is, and the fetch function is not called. Inside the block the request goes once to
  \<^verbatim>\<open>this.fetchWithPayment\<close>; the body is read with \<^verbatim>\<open>json()\<close> or \<^verbatim>\<open>text()\<close>; the
  header \<^verbatim>\<open>x-payment-response\<close> is decoded when it is neither \<^verbatim>\<open>null\<close> nor empty.
  Whatever is thrown inside the block goes through the catch clause.
\<close>

definition read_body :: "bool \<Rightarrow> Response \<Rightarrow> jsval + jsval" where
  "read_body parseJson' response =
     (if parseJson' then r_json response
      else (case r_text response of Inl e \<Rightarrow> Inl e | Inr s \<Rightarrow> Inr (JStr s)))"

definition decode_payment :: "Lib \<Rightarrow> Response \<Rightarrow> jsval + jsval" where
  "decode_payment lib response =
     (case r_headers_get response ''x-payment-response'' of
        None \<Rightarrow> Inr JNull
      | Some paymentResponseHeader \<Rightarrow>
          (if paymentResponseHeader \<noteq> [] then decodeXPaymentResponse lib paymentResponseHeader
           else Inr JNull))"

definition callEndpoint ::
  "Lib \<Rightarrow> 'w X402Agent \<Rightarrow> string \<Rightarrow> X402RequestOptions \<Rightarrow> 'w \<Rightarrow> (jsval + X402Response) \<times> 'w" where
  "callEndpoint lib this url options w =
     (let parseJson' = (case parseJson options of None \<Rightarrow> True | Some p \<Rightarrow> p)
      in case fetchOptions_of lib options of
           Inl thrown \<Rightarrow> (Inl thrown, w)
         | Inr fetchOptions \<Rightarrow>
            (case fetchWithPayment this url fetchOptions w of
               (Inl error, w') \<Rightarrow> (Inl (catch_rethrow lib error), w')
             | (Inr response, w') \<Rightarrow>
                 (case read_body parseJson' response of
                    Inl error \<Rightarrow> (Inl (catch_rethrow lib error), w')
                  | Inr data' \<Rightarrow>
                      (case decode_payment lib response of
                         Inl error \<Rightarrow> (Inl (catch_rethrow lib error), w')
                       | Inr paymentResponse \<Rightarrow>
                           (Inr \<lparr>data = data',
                                 payment = \<lparr>txHash = opt_member paymentResponse ''txHash'',
                                            amount = opt_member paymentResponse ''amount'',
                                            recipient = opt_member paymentResponse ''recipient'',
                                            chainId = opt_member paymentResponse ''chainId'',
                                            raw = paymentResponse\<rparr>,
                                 status = r_status response,
                                 statusText = r_statusText response\<rparr>, w')))))"

text \<open>\<^verbatim>\<open>callBuilderEndpoint\<close> (lines 104-107).\<close>

definition callBuilderEndpoint ::
  "Lib \<Rightarrow> 'w X402Agent \<Rightarrow> string \<Rightarrow> 'w \<Rightarrow> (jsval + X402Response) \<times> 'w" where
  "callBuilderEndpoint lib this baseUrl w =
     (let url = baseUrl @ ''/api/payment/builder''
      in callEndpoint lib this url
           \<lparr>method = Some ''GET'', headers = None, body = JUndefined, parseJson = None\<rparr> w)"

section \<open>Observing the requests\<close>

text \<open>
  A spy around the fetch function of an agent: it passes every call through and appends
  the URL and the options of the call to a log kept beside the world. \<open>requests_sent\<close>
  is the log of one \<^verbatim>\<open>callEndpoint\<close>, started on the empty log: the requests handed to
  \<^verbatim>\<open>this.fetchWithPayment\<close>, in order; it is empty when the fetch function was not called.
\<close>

definition recording :: "'w fetch_fn \<Rightarrow> ((string \<times> RequestInit) list \<times> 'w) fetch_fn" where
  "recording f url init lw =
     (case f url init (snd lw) of (r, w') \<Rightarrow> (r, (fst lw @ [(url, init)], w')))"

definition spy :: "'w X402Agent \<Rightarrow> ((string \<times> RequestInit) list \<times> 'w) X402Agent" where
  "spy this = \<lparr>account = account this, fetchWithPayment = recording (fetchWithPayment this)\<rparr>"

definition requests_sent ::
  "Lib \<Rightarrow> 'w X402Agent \<Rightarrow> string \<Rightarrow> X402RequestOptions \<Rightarrow> 'w \<Rightarrow> (string \<times> RequestInit) list" where
  "requests_sent lib this url options w = fst (snd (callEndpoint lib (spy this) url options ([], w)))"

section \<open>Test doubles\<close>

text \<open>
  Concrete stand-ins for the external parts, used where a statement is evaluated on an
  input. \<open>mock_stringify\<close> is right on the empty object, on the empty array and on an
  object whose first property is a bigint, where \<^verbatim>\<open>JSON.stringify\<close> throws a
  \<^verbatim>\<open>TypeError\<close>; these are the only object bodies of the examples. \<open>GET_init\<close> is the
  request that a GET without headers and body makes. \<open>mock_decode\<close> decodes the one header value \<open>''paid''\<close>
  and throws on every other, as a decoder that parses its argument does. \<open>mock_fetch\<close>
  answers every request with the given outcome and counts the calls in the world.
\<close>

fun mock_stringify :: "jsval \<Rightarrow> jsval + string" where
  "mock_stringify (JArr xs) = Inr ''[]''"
| "mock_stringify (JObj ((k, JBigInt i) # ps)) =
     Inl (new_TypeError ''Do not know how to serialize a BigInt'')"
| "mock_stringify v = Inr ''{}''"

definition mock_decode :: "string \<Rightarrow> jsval + jsval" where
  "mock_decode h =
     (if h = ''paid''
      then Inr (JObj [(''txHash'', JStr ''0xabc''), (''amount'', JStr ''10000000000000''),
                      (''recipient'', JStr ''0x5678''), (''chainId'', JNum (Num 84532))])
      else Inl (new_Error ''Unexpected token in JSON''))"

definition mock_lib :: Lib where
  "mock_lib = \<lparr>JSON_stringify = mock_stringify, ToString = (\<lambda>v. ''[object Object]''),
               decodeXPaymentResponse = mock_decode\<rparr>"

definition partial_lib :: Lib where
  "partial_lib = mock_lib\<lparr>decodeXPaymentResponse :=
                    (\<lambda>h. Inr (JObj [(''txHash'', JStr ''0xabc''), (''network'', JStr ''base-sepolia'')]))\<rparr>"

definition mock_response :: "nat \<Rightarrow> string \<Rightarrow> string option \<Rightarrow> Response" where
  "mock_response st stt hdr =
     \<lparr>r_status = st, r_statusText = stt,
      r_headers_get = (\<lambda>name. if name = ''x-payment-response'' then hdr else None),
      r_json = Inr (JObj [(''message'', JStr ''ok'')]),
      r_text = Inr ''ok''\<rparr>"

definition bad_json_response :: Response where
  "bad_json_response =
     (mock_response 200 ''OK'' None)
       \<lparr>r_json := Inl (JError ''SyntaxError'' ''Unexpected end of JSON input'' [])\<rparr>"

definition mock_fetch :: "(jsval + Response) \<Rightarrow> nat fetch_fn" where
  "mock_fetch result url init w = (result, Suc w)"

definition mock_agent :: "(jsval + Response) \<Rightarrow> nat X402Agent" where
  "mock_agent result = \<lparr>account = \<lparr>address = ''0xA''\<rparr>, fetchWithPayment = mock_fetch result\<rparr>"

definition mock_privateKeyToAccount :: "string \<Rightarrow> jsval + Account" where
  "mock_privateKeyToAccount key =
     (if key = ''0x01'' then Inr \<lparr>address = ''0x7E5F''\<rparr>
      else Inl (JError ''InvalidPrivateKeyError'' ''Private key is invalid'' []))"

definition mock_wrap :: "nat fetch_fn \<Rightarrow> Account \<Rightarrow> nat fetch_fn" where
  "mock_wrap f acct = f"

definition GET_options :: X402RequestOptions where
  "GET_options = \<lparr>method = Some ''GET'', headers = None, body = JUndefined, parseJson = None\<rparr>"

definition GET_init :: RequestInit where
  "GET_init = \<lparr>ri_method = ''GET'', ri_headers = [], ri_body = None\<rparr>"

definition no_options :: X402RequestOptions where
  "no_options = \<lparr>method = None, headers = None, body = JUndefined, parseJson = None\<rparr>"

definition text_options :: X402RequestOptions where
  "text_options = \<lparr>method = None, headers = None, body = JUndefined, parseJson = Some False\<rparr>"

definition post_options :: "jsval \<Rightarrow> X402RequestOptions" where
  "post_options b =
     \<lparr>method = Some ''POST'', headers = Some [(''Accept'', ''text/plain'')], body = b,
      parseJson = None\<rparr>"


section \<open>Auxiliary facts\<close>

text \<open>
  One call of \<^verbatim>\<open>callEndpoint\<close> hands one request to the fetch function when the fetch
  options were prepared, and none when their preparation threw.
\<close>

lemma requests_sent_eq:
  "requests_sent lib this url options w =
     (case fetchOptions_of lib options of Inl thrown \<Rightarrow> [] | Inr init \<Rightarrow> [(url, init)])"
  by (simp add: requests_sent_def callEndpoint_def spy_def recording_def Let_def
           split: prod.splits sum.splits)

lemma requests_sent_prepared:
  "fetchOptions_of lib options = Inr init \<Longrightarrow> requests_sent lib this url options w = [(url, init)]"
  by (simp add: requests_sent_eq)

text \<open>The spy does not change what the method returns.\<close>

lemma spy_result:
  "fst (callEndpoint lib (spy this) url options (l, w)) = fst (callEndpoint lib this url options w)"
  by (simp add: callEndpoint_def spy_def recording_def Let_def
           split: prod.splits sum.splits)



lemma fetchOptions_falsy:
  assumes "\<not> truthy (body options)"
  shows "fetchOptions_of lib options =
           Inr \<lparr>ri_method = (case method options of None \<Rightarrow> ''GET'' | Some m \<Rightarrow> m),
                ri_headers = (case headers options of None \<Rightarrow> [] | Some h \<Rightarrow> h),
                ri_body = None\<rparr>"
  using assms by (simp add: fetchOptions_of_def Let_def)

lemma fetchOptions_method:
  assumes "fetchOptions_of lib options = Inr init"
  shows "ri_method init = (case method options of None \<Rightarrow> ''GET'' | Some m \<Rightarrow> m)"
  using assms by (auto simp: fetchOptions_of_def Let_def split: if_splits sum.splits)

text \<open>The fetch options do not depend on \<^verbatim>\<open>parseJson\<close>, and an omitted \<^verbatim>\<open>headers\<close> is \<^verbatim>\<open>{}\<close>.\<close>

lemma fetchOptions_parseJson:
  "fetchOptions_of lib (options\<lparr>parseJson := pj\<rparr>) = fetchOptions_of lib options"
  by (simp add: fetchOptions_of_def)

lemma fetchOptions_headers_default:
  "headers options = None \<Longrightarrow>
     fetchOptions_of lib (options\<lparr>headers := Some []\<rparr>) = fetchOptions_of lib options"
  by (simp add: fetchOptions_of_def)

text \<open>The catch clause on a thrown value whose \<^verbatim>\<open>message\<close> is a string.\<close>

lemma catch_rethrow_message:
  assumes "get_member e ''message'' = Inr (JStr m)"
  shows "\<exists>msg. catch_rethrow lib e = new_Error msg \<and> sublist m msg \<and>
               (m \<noteq> [] \<longrightarrow> msg = ''X402 request failed: '' @ m)"
proof (cases "m = []")
  case True
  from assms obtain msg where "catch_rethrow lib e = new_Error msg"
    by (simp add: catch_rethrow_def Let_def)
  with True show ?thesis by auto
next
  case False
  then have "catch_rethrow lib e = new_Error (''X402 request failed: '' @ m)"
    using assms by (simp add: catch_rethrow_def Let_def js_or_def template_string_def)
  moreover have "sublist m (''X402 request failed: '' @ m)"
    by (rule sublist_append_leftI)
  ultimately show ?thesis using False by blast
qed


lemma callEndpoint_fetch_throws:
  assumes "fetchOptions_of lib options = Inr init"
    and "fetchWithPayment this url init w = (Inl e, w')"
  shows "callEndpoint lib this url options w = (Inl (catch_rethrow lib e), w')"
  using assms by (simp add: callEndpoint_def Let_def)

lemma callEndpoint_body_throws:
  assumes "fetchOptions_of lib options = Inr init"
    and "fetchWithPayment this url init w = (Inr response, w')"
    and "read_body (case parseJson options of None \<Rightarrow> True | Some p \<Rightarrow> p) response = Inl e"
  shows "callEndpoint lib this url options w = (Inl (catch_rethrow lib e), w')"
  using assms by (simp add: callEndpoint_def Let_def)

lemma callEndpoint_returns:
  assumes "fetchOptions_of lib options = Inr init"
    and "fetchWithPayment this url init w = (Inr response, w')"
    and "read_body (case parseJson options of None \<Rightarrow> True | Some p \<Rightarrow> p) response = Inr d"
    and "decode_payment lib response = Inr p"
  shows "callEndpoint lib this url options w =
           (Inr \<lparr>data = d,
                 payment = \<lparr>txHash = opt_member p ''txHash'', amount = opt_member p ''amount'',
                            recipient = opt_member p ''recipient'',
                            chainId = opt_member p ''chainId'', raw = p\<rparr>,
                 status = r_status response, statusText = r_statusText response\<rparr>, w')"
  using assms by (simp add: callEndpoint_def Let_def)

text \<open>The requests that the test doubles make.\<close>

lemma GET_options_init: "fetchOptions_of lib GET_options = Inr GET_init"
  by (simp add: fetchOptions_of_def GET_options_def GET_init_def)

lemma GET_options_parseJson: "parseJson GET_options = None"
  by (simp add: GET_options_def)

lemma no_options_init: "fetchOptions_of lib no_options = Inr GET_init"
  by (simp add: fetchOptions_of_def no_options_def GET_init_def)

lemma text_options_init: "fetchOptions_of lib text_options = Inr GET_init"
  by (simp add: fetchOptions_of_def text_options_def GET_init_def)

lemma mock_agent_fetch: "fetchWithPayment (mock_agent result) url init w = (result, Suc w)"
  by (simp add: mock_agent_def mock_fetch_def)

section \<open>The claims\<close>

subsection \<open>C1: an object body is serialised and marked as JSON\<close>




subsection \<open>C2: no payment header\<close>

text \<open>
  C2. When the response that the fetch function returns has no \<^verbatim>\<open>x-payment-response\<close>
  header (\<^verbatim>\<open>headers.get\<close> gives \<^verbatim>\<open>null\<close>) and its body is read without error, the
  method returns an envelope whose \<^verbatim>\<open>payment.raw\<close> is \<^verbatim>\<open>null\<close>, whose \<^verbatim>\<open>txHash\<close>,
  \<^verbatim>\<open>amount\<close>, \<^verbatim>\<open>recipient\<close> and \<^verbatim>\<open>chainId\<close> are \<^verbatim>\<open>undefined\<close>, and whose \<^verbatim>\<open>status\<close>
  and \<^verbatim>\<open>statusText\<close> are those of the response. Here and below \<open>init\<close> is the request
  of the call, the one that the fetch function answers.
\<close>

theorem no_payment_header:
  assumes "fetchOptions_of lib options = Inr init"
    and "fetchWithPayment this url init w = (Inr response, w')"
    and "r_headers_get response ''x-payment-response'' = None"
    and "read_body (case parseJson options of None \<Rightarrow> True | Some p \<Rightarrow> p) response = Inr d"
  shows "callEndpoint lib this url options w =
           (Inr \<lparr>data = d,
                 payment = \<lparr>txHash = JUndefined, amount = JUndefined, recipient = JUndefined,
                            chainId = JUndefined, raw = JNull\<rparr>,
                 status = r_status response, statusText = r_statusText response\<rparr>, w')"
proof -
  have "decode_payment lib response = Inr JNull"
    using assms(3) by (simp add: decode_payment_def)
  from callEndpoint_returns [OF assms(1) assms(2) assms(4) this] show ?thesis
    by (simp add: opt_member_def)
qed

text \<open>The statement at a 402 response without the header.\<close>

theorem no_payment_header_witness:
  "fetchOptions_of mock_lib GET_options = Inr GET_init \<and>
   fetchWithPayment (mock_agent (Inr (mock_response 402 ''Payment Required'' None))) ''http://x''
     GET_init 0
     = (Inr (mock_response 402 ''Payment Required'' None), 1) \<and>
   r_headers_get (mock_response 402 ''Payment Required'' None) ''x-payment-response'' = None \<and>
   read_body (case parseJson GET_options of None \<Rightarrow> True | Some p \<Rightarrow> p)
     (mock_response 402 ''Payment Required'' None) = Inr (JObj [(''message'', JStr ''ok'')]) \<and>
   callEndpoint mock_lib (mock_agent (Inr (mock_response 402 ''Payment Required'' None)))
     ''http://x'' GET_options 0 =
     (Inr \<lparr>data = JObj [(''message'', JStr ''ok'')],
           payment = \<lparr>txHash = JUndefined, amount = JUndefined, recipient = JUndefined,
                      chainId = JUndefined, raw = JNull\<rparr>,
           status = 402, statusText = ''Payment Required''\<rparr>, 1)"
  using no_payment_header [where lib = mock_lib and options = GET_options and init = GET_init
      and this = "mock_agent (Inr (mock_response 402 ''Payment Required'' None))"
      and url = "''http://x''" and w = "0::nat" and w' = "1::nat"
      and response = "mock_response 402 ''Payment Required'' None"
      and d = "JObj [(''message'', JStr ''ok'')]"]
  by (simp add: GET_options_init mock_agent_fetch mock_response_def GET_options_parseJson read_body_def)

subsection \<open>C3: a decoded payment header\<close>

text \<open>
  C3. When the response carries a non-empty \<^verbatim>\<open>x-payment-response\<close> header that the
  decoder turns into an object, and the body is read without error, the envelope's
  \<^verbatim>\<open>txHash\<close>, \<^verbatim>\<open>amount\<close>, \<^verbatim>\<open>recipient\<close> and \<^verbatim>\<open>chainId\<close> are the properties of these
  names of the decoded object, \<^verbatim>\<open>undefined\<close> where the object has none, and
  \<^verbatim>\<open>payment.raw\<close> is the decoded object itself.
\<close>

theorem payment_header_decoded:
  assumes "fetchOptions_of lib options = Inr init"
    and "fetchWithPayment this url init w = (Inr response, w')"
    and "r_headers_get response ''x-payment-response'' = Some h" and "h \<noteq> []"
    and "decodeXPaymentResponse lib h = Inr (JObj props)"
    and "read_body (case parseJson options of None \<Rightarrow> True | Some p \<Rightarrow> p) response = Inr d"
  shows "callEndpoint lib this url options w =
           (Inr \<lparr>data = d,
                 payment =
                   \<lparr>txHash = (case map_of props ''txHash'' of None \<Rightarrow> JUndefined | Some v \<Rightarrow> v),
                    amount = (case map_of props ''amount'' of None \<Rightarrow> JUndefined | Some v \<Rightarrow> v),
                    recipient = (case map_of props ''recipient'' of None \<Rightarrow> JUndefined | Some v \<Rightarrow> v),
                    chainId = (case map_of props ''chainId'' of None \<Rightarrow> JUndefined | Some v \<Rightarrow> v),
                    raw = JObj props\<rparr>,
                 status = r_status response, statusText = r_statusText response\<rparr>, w')"
proof -
  have "decode_payment lib response = Inr (JObj props)"
    using assms(3,4,5) by (simp add: decode_payment_def)
  from callEndpoint_returns [OF assms(1) assms(2) assms(6) this] show ?thesis
    by (simp add: opt_member_def)
qed

text \<open>
  The statement at a decoded object that has a \<^verbatim>\<open>txHash\<close> and none of the other three
  properties.
\<close>

theorem payment_header_decoded_witness:
  "fetchOptions_of partial_lib GET_options = Inr GET_init \<and>
   fetchWithPayment (mock_agent (Inr (mock_response 200 ''OK'' (Some ''hdr'')))) ''http://x''
     GET_init 0
     = (Inr (mock_response 200 ''OK'' (Some ''hdr'')), 1) \<and>
   r_headers_get (mock_response 200 ''OK'' (Some ''hdr'')) ''x-payment-response'' = Some ''hdr'' \<and>
   ''hdr'' \<noteq> [] \<and>
   decodeXPaymentResponse partial_lib ''hdr''
     = Inr (JObj [(''txHash'', JStr ''0xabc''), (''network'', JStr ''base-sepolia'')]) \<and>
   read_body (case parseJson GET_options of None \<Rightarrow> True | Some p \<Rightarrow> p)
     (mock_response 200 ''OK'' (Some ''hdr'')) = Inr (JObj [(''message'', JStr ''ok'')]) \<and>
   callEndpoint partial_lib (mock_agent (Inr (mock_response 200 ''OK'' (Some ''hdr''))))
     ''http://x'' GET_options 0 =
     (Inr \<lparr>data = JObj [(''message'', JStr ''ok'')],
           payment = \<lparr>txHash = JStr ''0xabc'', amount = JUndefined, recipient = JUndefined,
                      chainId = JUndefined,
                      raw = JObj [(''txHash'', JStr ''0xabc''), (''network'', JStr ''base-sepolia'')]\<rparr>,
           status = 200, statusText = ''OK''\<rparr>, 1)"
  using payment_header_decoded [where lib = partial_lib and options = GET_options
      and init = GET_init
      and this = "mock_agent (Inr (mock_response 200 ''OK'' (Some ''hdr'')))"
      and url = "''http://x''" and w = "0::nat" and w' = "1::nat"
      and response = "mock_response 200 ''OK'' (Some ''hdr'')" and h = "''hdr''"
      and props = "[(''txHash'', JStr ''0xabc''), (''network'', JStr ''base-sepolia'')]"
      and d = "JObj [(''message'', JStr ''ok'')]"]
  by (simp add: GET_options_init mock_agent_fetch mock_response_def GET_options_parseJson read_body_def
        partial_lib_def)

subsection \<open>C4: the builder endpoint\<close>

text \<open>
  C4. For every base URL, every fetch function and every world,
  \<^verbatim>\<open>callBuilderEndpoint(baseUrl)\<close> gives what
  \<^verbatim>\<open>callEndpoint(baseUrl + "/api/payment/builder", {method: "GET"})\<close> gives: the same
  envelope or thrown value, and the same world afterwards.
\<close>

theorem callBuilderEndpoint_is_callEndpoint:
  "callBuilderEndpoint lib this baseUrl w =
     callEndpoint lib this (baseUrl @ ''/api/payment/builder'')
       \<lparr>method = Some ''GET'', headers = None, body = JUndefined, parseJson = None\<rparr> w"
  by (simp add: callBuilderEndpoint_def)

subsection \<open>C5: the constructor checks the prefix\<close>

text \<open>
  C5. A key that does not start with \<^verbatim>\<open>0x\<close> makes the constructor throw the error
  \<^verbatim>\<open>Private key must start with 0x\<close>, whatever the signing library and the payment
  wrapper would do: no agent is returned, so no account and no fetch function exist. The
  prefix test is the constructor's only check: on a key with the prefix the outcome is the
  one of \<^verbatim>\<open>privateKeyToAccount\<close>, an agent around its account or the value it throws.
\<close>

theorem constructor_prefix_check:
  "(\<not> startsWith privateKey ''0x'' \<longrightarrow>
      X402Agent_new privateKeyToAccount wrapFetchWithPayment fetch privateKey
        = Inl (new_Error ''Private key must start with 0x'')) \<and>
   (startsWith privateKey ''0x'' \<longrightarrow>
      X402Agent_new privateKeyToAccount wrapFetchWithPayment fetch privateKey
        = (case privateKeyToAccount privateKey of
             Inl e \<Rightarrow> Inl e
           | Inr acct \<Rightarrow> Inr \<lparr>account = acct, fetchWithPayment = wrapFetchWithPayment fetch acct\<rparr>))"
  by (simp add: X402Agent_new_def)

text \<open>
  The statement at a key without the prefix, at a key that the library accepts and at a key
  with the prefix that the library rejects.
\<close>

theorem constructor_prefix_check_witness:
  "\<not> startsWith ''ac0974be'' ''0x'' \<and>
   X402Agent_new mock_privateKeyToAccount mock_wrap (mock_fetch (Inl JNull)) ''ac0974be''
     = Inl (new_Error ''Private key must start with 0x'') \<and>
   startsWith ''0x01'' ''0x'' \<and>
   X402Agent_new mock_privateKeyToAccount mock_wrap (mock_fetch (Inl JNull)) ''0x01''
     = Inr \<lparr>account = \<lparr>address = ''0x7E5F''\<rparr>,
            fetchWithPayment = mock_wrap (mock_fetch (Inl JNull)) \<lparr>address = ''0x7E5F''\<rparr>\<rparr> \<and>
   startsWith ''0xzz'' ''0x'' \<and>
   X402Agent_new mock_privateKeyToAccount mock_wrap (mock_fetch (Inl JNull)) ''0xzz''
     = Inl (JError ''InvalidPrivateKeyError'' ''Private key is invalid'' [])"
  using constructor_prefix_check [of "''ac0974be''" mock_privateKeyToAccount mock_wrap "mock_fetch (Inl JNull)"]
    constructor_prefix_check [of "''0x01''" mock_privateKeyToAccount mock_wrap "mock_fetch (Inl JNull)"]
    constructor_prefix_check [of "''0xzz''" mock_privateKeyToAccount mock_wrap "mock_fetch (Inl JNull)"]
  by (simp add: startsWith_def mock_privateKeyToAccount_def)

subsection \<open>C6: failures are wrapped, once\<close>

text \<open>
  C6. When the fetch function throws, or the reading of the body throws, an error whose
  \<^verbatim>\<open>message\<close> is the string \<open>m\<close>, the method throws one \<^verbatim>\<open>Error\<close> and returns no
  envelope. The message of that error contains \<open>m\<close>; it is \<^verbatim>\<open>X402 request failed: \<close>
  followed by \<open>m\<close> when \<open>m\<close> is not empty. Exactly one request was handed to the fetch
  function: the method does not retry.
\<close>

theorem failure_is_wrapped:
  assumes "get_member e ''message'' = Inr (JStr m)"
    and "fetchOptions_of lib options = Inr init"
    and "fetchWithPayment this url init w = (Inl e, w') \<or>
         (\<exists>response. fetchWithPayment this url init w = (Inr response, w') \<and>
            read_body (case parseJson options of None \<Rightarrow> True | Some p \<Rightarrow> p) response = Inl e)"
  shows "\<exists>msg. callEndpoint lib this url options w = (Inl (new_Error msg), w') \<and>
               sublist m msg \<and> (m \<noteq> [] \<longrightarrow> msg = ''X402 request failed: '' @ m) \<and>
               length (requests_sent lib this url options w) = 1"
proof -
  have "callEndpoint lib this url options w = (Inl (catch_rethrow lib e), w')"
    using assms(3)
  proof (elim disjE exE conjE)
    assume "fetchWithPayment this url init w = (Inl e, w')"
    with assms(2) show ?thesis by (rule callEndpoint_fetch_throws)
  next
    fix response
    assume "fetchWithPayment this url init w = (Inr response, w')"
      and "read_body (case parseJson options of None \<Rightarrow> True | Some p \<Rightarrow> p) response = Inl e"
    with assms(2) show ?thesis by (rule callEndpoint_body_throws)
  qed
  with catch_rethrow_message [OF assms(1), of lib] requests_sent_prepared [OF assms(2), of this url w]
  show ?thesis by auto
qed

text \<open>
  The statement at a fetch function that throws \<^verbatim>\<open>TypeError: fetch failed\<close>, and at a
  response whose \<^verbatim>\<open>json()\<close> throws a \<^verbatim>\<open>SyntaxError\<close>.
\<close>

theorem failure_is_wrapped_witness:
  "get_member (new_TypeError ''fetch failed'') ''message'' = Inr (JStr ''fetch failed'') \<and>
   fetchOptions_of mock_lib GET_options = Inr GET_init \<and>
   fetchWithPayment (mock_agent (Inl (new_TypeError ''fetch failed''))) ''http://x''
     GET_init 0 = (Inl (new_TypeError ''fetch failed''), 1) \<and>
   callEndpoint mock_lib (mock_agent (Inl (new_TypeError ''fetch failed''))) ''http://x'' GET_options 0
     = (Inl (new_Error ''X402 request failed: fetch failed''), 1) \<and>
   sublist ''fetch failed'' ''X402 request failed: fetch failed'' \<and>
   length (requests_sent mock_lib (mock_agent (Inl (new_TypeError ''fetch failed''))) ''http://x''
             GET_options 0) = 1 \<and>
   fetchWithPayment (mock_agent (Inr bad_json_response)) ''http://x''
     GET_init 0 = (Inr bad_json_response, 1) \<and>
   read_body (case parseJson GET_options of None \<Rightarrow> True | Some p \<Rightarrow> p) bad_json_response
     = Inl (JError ''SyntaxError'' ''Unexpected end of JSON input'' []) \<and>
   callEndpoint mock_lib (mock_agent (Inr bad_json_response)) ''http://x'' GET_options 0
     = (Inl (new_Error ''X402 request failed: Unexpected end of JSON input''), 1)"
  using failure_is_wrapped [where e = "new_TypeError ''fetch failed''" and m = "''fetch failed''"
      and lib = mock_lib and options = GET_options and init = GET_init
      and this = "mock_agent (Inl (new_TypeError ''fetch failed''))" and url = "''http://x''"
      and w = "0::nat" and w' = "1::nat"]
    failure_is_wrapped [where e = "JError ''SyntaxError'' ''Unexpected end of JSON input'' []"
      and m = "''Unexpected end of JSON input''"
      and lib = mock_lib and options = GET_options and init = GET_init
      and this = "mock_agent (Inr bad_json_response)" and url = "''http://x''"
      and w = "0::nat" and w' = "1::nat"]
  by (auto simp: new_TypeError_def GET_options_init mock_agent_fetch GET_options_parseJson read_body_def
        bad_json_response_def mock_response_def)

subsection \<open>C7: the status is passed through\<close>

text \<open>
  C7, as the code has it. When the fetch function returns a response, of any status, the
  body is read without error, and the payment header is absent, empty or decoded without
  error, the method returns an envelope whose \<^verbatim>\<open>status\<close> and \<^verbatim>\<open>statusText\<close> are those of
  the response. The status is not inspected, so a status that is not OK never makes the
  method throw.
\<close>

theorem any_status_returns_envelope:
  assumes "fetchOptions_of lib options = Inr init"
    and "fetchWithPayment this url init w = (Inr response, w')"
    and "read_body (case parseJson options of None \<Rightarrow> True | Some p \<Rightarrow> p) response = Inr d"
    and "decode_payment lib response = Inr p"
  shows "\<exists>env. callEndpoint lib this url options w = (Inr env, w') \<and> data env = d \<and>
               status env = r_status response \<and> statusText env = r_statusText response"
  using callEndpoint_returns [OF assms] by simp

text \<open>The statement at a 500 response with an empty payment header.\<close>

theorem any_status_returns_envelope_witness:
  "fetchOptions_of mock_lib GET_options = Inr GET_init \<and>
   fetchWithPayment (mock_agent (Inr (mock_response 500 ''Internal Server Error'' (Some []))))
     ''http://x'' GET_init 0
     = (Inr (mock_response 500 ''Internal Server Error'' (Some [])), 1) \<and>
   read_body (case parseJson GET_options of None \<Rightarrow> True | Some p \<Rightarrow> p)
     (mock_response 500 ''Internal Server Error'' (Some [])) = Inr (JObj [(''message'', JStr ''ok'')]) \<and>
   decode_payment mock_lib (mock_response 500 ''Internal Server Error'' (Some [])) = Inr JNull \<and>
   (\<exists>env. callEndpoint mock_lib
            (mock_agent (Inr (mock_response 500 ''Internal Server Error'' (Some []))))
            ''http://x'' GET_options 0 = (Inr env, 1) \<and>
          data env = JObj [(''message'', JStr ''ok'')] \<and>
          status env = 500 \<and> statusText env = ''Internal Server Error'')"
  using any_status_returns_envelope
      [where lib = mock_lib and options = GET_options and init = GET_init
        and this = "mock_agent (Inr (mock_response 500 ''Internal Server Error'' (Some [])))"
        and url = "''http://x''" and w = "0::nat" and w' = "1::nat"
        and response = "mock_response 500 ''Internal Server Error'' (Some [])"
        and d = "JObj [(''message'', JStr ''ok'')]" and p = JNull]
  by (simp add: GET_options_init mock_agent_fetch mock_response_def GET_options_parseJson read_body_def
        decode_payment_def)

text \<open>
  C7 as stated fails: the fetch function returns a 200 response, \<^verbatim>\<open>json()\<close> succeeds,
  and the method still throws, because the response carries a payment header that the
  decoder rejects and the decoder runs inside the \<^verbatim>\<open>try\<close> block.
\<close>

theorem undecodable_payment_header_counterexample:
  "fetchOptions_of mock_lib GET_options = Inr GET_init \<and>
   fetchWithPayment (mock_agent (Inr (mock_response 200 ''OK'' (Some ''garbage''))))
     ''http://x'' GET_init 0
     = (Inr (mock_response 200 ''OK'' (Some ''garbage'')), 1) \<and>
   read_body (case parseJson GET_options of None \<Rightarrow> True | Some p \<Rightarrow> p)
     (mock_response 200 ''OK'' (Some ''garbage'')) = Inr (JObj [(''message'', JStr ''ok'')]) \<and>
   callEndpoint mock_lib (mock_agent (Inr (mock_response 200 ''OK'' (Some ''garbage''))))
     ''http://x'' GET_options 0
     = (Inl (new_Error ''X402 request failed: Unexpected token in JSON''), 1)"
  by (simp add: callEndpoint_def Let_def GET_options_init mock_agent_fetch mock_response_def
        GET_options_parseJson read_body_def decode_payment_def mock_lib_def mock_decode_def
        catch_rethrow_def new_Error_def js_or_def template_string_def)

subsection \<open>C8: the address\<close>

text \<open>
  C8. Two agents constructed from the same key, whatever fetch function and payment
  wrapper each was given, have the same address: it is the address of the account that
  \<^verbatim>\<open>privateKeyToAccount\<close> derives from the key. The getter is a total function of the
  agent: it reads a field, changes nothing and cannot throw.
\<close>

theorem address_deterministic:
  assumes "X402Agent_new privateKeyToAccount wrap1 fetch1 privateKey = Inr a1"
    and "X402Agent_new privateKeyToAccount wrap2 fetch2 privateKey = Inr a2"
  shows "get_address a1 = get_address a2 \<and>
         (\<exists>acct. privateKeyToAccount privateKey = Inr acct \<and> get_address a1 = address acct)"
  using assms
  by (auto simp: X402Agent_new_def get_address_def split: if_splits sum.splits)

text \<open>The statement at the key \<^verbatim>\<open>0x01\<close> and two different fetch functions.\<close>

theorem address_deterministic_witness:
  "X402Agent_new mock_privateKeyToAccount mock_wrap (mock_fetch (Inl JNull)) ''0x01''
     = Inr \<lparr>account = \<lparr>address = ''0x7E5F''\<rparr>, fetchWithPayment = mock_fetch (Inl JNull)\<rparr> \<and>
   X402Agent_new mock_privateKeyToAccount (\<lambda>f acct. f) (mock_fetch (Inl JUndefined)) ''0x01''
     = Inr \<lparr>account = \<lparr>address = ''0x7E5F''\<rparr>, fetchWithPayment = mock_fetch (Inl JUndefined)\<rparr> \<and>
   get_address \<lparr>account = \<lparr>address = ''0x7E5F''\<rparr>, fetchWithPayment = mock_fetch (Inl JNull)\<rparr>
     = get_address \<lparr>account = \<lparr>address = ''0x7E5F''\<rparr>, fetchWithPayment = mock_fetch (Inl JUndefined)\<rparr> \<and>
   get_address \<lparr>account = \<lparr>address = ''0x7E5F''\<rparr>, fetchWithPayment = mock_fetch (Inl JNull)\<rparr>
     = ''0x7E5F''"
proof -
  have h1: "X402Agent_new mock_privateKeyToAccount mock_wrap (mock_fetch (Inl JNull)) ''0x01''
     = Inr \<lparr>account = \<lparr>address = ''0x7E5F''\<rparr>, fetchWithPayment = mock_fetch (Inl JNull)\<rparr>"
    by (simp add: X402Agent_new_def startsWith_def mock_privateKeyToAccount_def mock_wrap_def)
  have h2: "X402Agent_new mock_privateKeyToAccount (\<lambda>f acct. f) (mock_fetch (Inl JUndefined)) ''0x01''
     = Inr \<lparr>account = \<lparr>address = ''0x7E5F''\<rparr>, fetchWithPayment = mock_fetch (Inl JUndefined)\<rparr>"
    by (simp add: X402Agent_new_def startsWith_def mock_privateKeyToAccount_def)
  from address_deterministic [OF h1 h2] h1 h2 show ?thesis
    by (auto simp: mock_privateKeyToAccount_def)
qed

subsection \<open>C9: the defaults of the options\<close>

text \<open>
  C9. An omitted \<^verbatim>\<open>method\<close> is sent as \<^verbatim>\<open>GET\<close>: the one request of the call has that
  method (no request is made only when \<^verbatim>\<open>JSON.stringify\<close> threw on the body). Omitting
  \<^verbatim>\<open>headers\<close> is the same as passing the empty mapping; omitting \<^verbatim>\<open>parseJson\<close> is the
  same as passing \<^verbatim>\<open>true\<close>. When the call returns an envelope, its \<^verbatim>\<open>data\<close> is the value
  of \<^verbatim>\<open>json()\<close> unless \<^verbatim>\<open>parseJson\<close> is \<^verbatim>\<open>false\<close>, and the string of \<^verbatim>\<open>text()\<close> when
  it is.
\<close>

theorem callEndpoint_defaults:
  "(method options = None \<longrightarrow>
      (case fetchOptions_of lib options of
         Inr init \<Rightarrow> requests_sent lib this url options w = [(url, init)] \<and> ri_method init = ''GET''
       | Inl thrown \<Rightarrow> requests_sent lib this url options w = [])) \<and>
   (headers options = None \<longrightarrow>
      callEndpoint lib this url options w
        = callEndpoint lib this url (options\<lparr>headers := Some []\<rparr>) w) \<and>
   (parseJson options = None \<longrightarrow>
      callEndpoint lib this url options w
        = callEndpoint lib this url (options\<lparr>parseJson := Some True\<rparr>) w) \<and>
   (\<forall>init response w' p.
      fetchOptions_of lib options = Inr init \<and>
      fetchWithPayment this url init w = (Inr response, w') \<and>
      decode_payment lib response = Inr p \<longrightarrow>
        (\<forall>j. parseJson options \<noteq> Some False \<and> r_json response = Inr j \<longrightarrow>
           (\<exists>env. callEndpoint lib this url options w = (Inr env, w') \<and> data env = j)) \<and>
        (\<forall>s. parseJson options = Some False \<and> r_text response = Inr s \<longrightarrow>
           (\<exists>env. callEndpoint lib this url options w = (Inr env, w') \<and> data env = JStr s)))"
proof (intro conjI impI allI)
  assume m: "method options = None"
  show "case fetchOptions_of lib options of
         Inr init \<Rightarrow> requests_sent lib this url options w = [(url, init)] \<and> ri_method init = ''GET''
       | Inl thrown \<Rightarrow> requests_sent lib this url options w = []"
  proof (cases "fetchOptions_of lib options")
    case (Inl thrown)
    then show ?thesis by (simp add: requests_sent_eq)
  next
    case (Inr init)
    from fetchOptions_method [OF Inr] m have "ri_method init = ''GET''" by simp
    with Inr show ?thesis by (simp add: requests_sent_eq)
  qed
next
  assume "headers options = None"
  then have "fetchOptions_of lib (options\<lparr>headers := Some []\<rparr>) = fetchOptions_of lib options"
    by (rule fetchOptions_headers_default)
  then show "callEndpoint lib this url options w
        = callEndpoint lib this url (options\<lparr>headers := Some []\<rparr>) w"
    by (simp add: callEndpoint_def)
next
  assume "parseJson options = None"
  then show "callEndpoint lib this url options w
        = callEndpoint lib this url (options\<lparr>parseJson := Some True\<rparr>) w"
    by (simp add: callEndpoint_def fetchOptions_parseJson)
next
  fix init response w' p j
  assume a: "fetchOptions_of lib options = Inr init \<and>
      fetchWithPayment this url init w = (Inr response, w') \<and>
      decode_payment lib response = Inr p"
    and b: "parseJson options \<noteq> Some False \<and> r_json response = Inr j"
  from b have "read_body (case parseJson options of None \<Rightarrow> True | Some p \<Rightarrow> p) response = Inr j"
    by (cases "parseJson options") (auto simp: read_body_def)
  with a callEndpoint_returns [of lib options init this url w response w' j p]
  show "\<exists>env. callEndpoint lib this url options w = (Inr env, w') \<and> data env = j"
    by simp
next
  fix init response w' p s
  assume a: "fetchOptions_of lib options = Inr init \<and>
      fetchWithPayment this url init w = (Inr response, w') \<and>
      decode_payment lib response = Inr p"
    and b: "parseJson options = Some False \<and> r_text response = Inr s"
  from b have "read_body (case parseJson options of None \<Rightarrow> True | Some p \<Rightarrow> p) response = Inr (JStr s)"
    by (simp add: read_body_def)
  with a callEndpoint_returns [of lib options init this url w response w' "JStr s" p]
  show "\<exists>env. callEndpoint lib this url options w = (Inr env, w') \<and> data env = JStr s"
    by simp
qed

text \<open>
  The statement at the options \<^verbatim>\<open>{}\<close> and at the options \<^verbatim>\<open>{parseJson: false}\<close>,
  against a 200 response.
\<close>

theorem callEndpoint_defaults_witness:
  "method no_options = None \<and> headers no_options = None \<and> parseJson no_options = None \<and>
   fetchOptions_of mock_lib no_options = Inr GET_init \<and>
   requests_sent mock_lib (mock_agent (Inr (mock_response 200 ''OK'' None))) ''http://x'' no_options 0
     = [(''http://x'', \<lparr>ri_method = ''GET'', ri_headers = [], ri_body = None\<rparr>)] \<and>
   callEndpoint mock_lib (mock_agent (Inr (mock_response 200 ''OK'' None))) ''http://x'' no_options 0
     = callEndpoint mock_lib (mock_agent (Inr (mock_response 200 ''OK'' None))) ''http://x''
         (no_options\<lparr>headers := Some []\<rparr>) 0 \<and>
   callEndpoint mock_lib (mock_agent (Inr (mock_response 200 ''OK'' None))) ''http://x'' no_options 0
     = callEndpoint mock_lib (mock_agent (Inr (mock_response 200 ''OK'' None))) ''http://x''
         (no_options\<lparr>parseJson := Some True\<rparr>) 0 \<and>
   fetchWithPayment (mock_agent (Inr (mock_response 200 ''OK'' None))) ''http://x''
     GET_init 0 = (Inr (mock_response 200 ''OK'' None), 1) \<and>
   decode_payment mock_lib (mock_response 200 ''OK'' None) = Inr JNull \<and>
   r_json (mock_response 200 ''OK'' None) = Inr (JObj [(''message'', JStr ''ok'')]) \<and>
   fst (callEndpoint mock_lib (mock_agent (Inr (mock_response 200 ''OK'' None))) ''http://x''
          no_options 0)
     = Inr \<lparr>data = JObj [(''message'', JStr ''ok'')],
            payment = \<lparr>txHash = JUndefined, amount = JUndefined, recipient = JUndefined,
                       chainId = JUndefined, raw = JNull\<rparr>,
            status = 200, statusText = ''OK''\<rparr> \<and>
   parseJson text_options = Some False \<and>
   fetchOptions_of mock_lib text_options = Inr GET_init \<and>
   r_text (mock_response 200 ''OK'' None) = Inr ''ok'' \<and>
   fst (callEndpoint mock_lib (mock_agent (Inr (mock_response 200 ''OK'' None))) ''http://x''
          text_options 0)
     = Inr \<lparr>data = JStr ''ok'',
            payment = \<lparr>txHash = JUndefined, amount = JUndefined, recipient = JUndefined,
                       chainId = JUndefined, raw = JNull\<rparr>,
            status = 200, statusText = ''OK''\<rparr>"
  using callEndpoint_defaults [of no_options mock_lib
      "mock_agent (Inr (mock_response 200 ''OK'' None))" "''http://x''" 0]
    callEndpoint_defaults [of text_options mock_lib
      "mock_agent (Inr (mock_response 200 ''OK'' None))" "''http://x''" 0]
  by (simp add: no_options_init text_options_init requests_sent_eq GET_init_def
        no_options_def text_options_def fetchOptions_of_def
        callEndpoint_def mock_agent_def mock_fetch_def mock_response_def decode_payment_def
        read_body_def opt_member_def)

subsection \<open>C10: a falsy body is not sent\<close>

text \<open>
  C10. When \<^verbatim>\<open>options.body\<close> is the empty string, \<^verbatim>\<open>0\<close>, \<^verbatim>\<open>false\<close>, \<^verbatim>\<open>NaN\<close> or
  \<^verbatim>\<open>null\<close>, the one request handed to the fetch function has no body, and its headers are
  the caller's headers as supplied: no \<^verbatim>\<open>Content-Type\<close> is added.
\<close>

theorem falsy_body_is_dropped:
  assumes "body options \<in> {JStr [], JNum (Num 0), JBool False, JNum NaN, JNull}"
  shows "\<exists>init. requests_sent lib this url options w = [(url, init)] \<and> ri_body init = None \<and>
           ri_headers init = (case headers options of None \<Rightarrow> [] | Some h \<Rightarrow> h)"
proof -
  from assms have "\<not> truthy (body options)" by auto
  then show ?thesis by (simp add: requests_sent_eq fetchOptions_falsy)
qed

text \<open>The statement at each of the five values, sent by POST with an \<^verbatim>\<open>Accept\<close> header.\<close>

theorem falsy_body_is_dropped_witness:
  "body (post_options (JStr [])) \<in> {JStr [], JNum (Num 0), JBool False, JNum NaN, JNull} \<and>
   body (post_options (JNum (Num 0))) \<in> {JStr [], JNum (Num 0), JBool False, JNum NaN, JNull} \<and>
   body (post_options (JBool False)) \<in> {JStr [], JNum (Num 0), JBool False, JNum NaN, JNull} \<and>
   body (post_options (JNum NaN)) \<in> {JStr [], JNum (Num 0), JBool False, JNum NaN, JNull} \<and>
   body (post_options JNull) \<in> {JStr [], JNum (Num 0), JBool False, JNum NaN, JNull} \<and>
   map (\<lambda>b. requests_sent mock_lib (mock_agent (Inr (mock_response 200 ''OK'' None))) ''http://x''
               (post_options b) 0)
     [JStr [], JNum (Num 0), JBool False, JNum NaN, JNull]
   = replicate 5
       [(''http://x'', \<lparr>ri_method = ''POST'', ri_headers = [(''Accept'', ''text/plain'')],
                          ri_body = None\<rparr>)]"
  using falsy_body_is_dropped [of "post_options (JStr [])" mock_lib
      "mock_agent (Inr (mock_response 200 ''OK'' None))" "''http://x''" 0]
    falsy_body_is_dropped [of "post_options (JNum (Num 0))" mock_lib
      "mock_agent (Inr (mock_response 200 ''OK'' None))" "''http://x''" 0]
    falsy_body_is_dropped [of "post_options (JBool False)" mock_lib
      "mock_agent (Inr (mock_response 200 ''OK'' None))" "''http://x''" 0]
    falsy_body_is_dropped [of "post_options (JNum NaN)" mock_lib
      "mock_agent (Inr (mock_response 200 ''OK'' None))" "''http://x''" 0]
    falsy_body_is_dropped [of "post_options JNull" mock_lib
      "mock_agent (Inr (mock_response 200 ''OK'' None))" "''http://x''" 0]
  by (simp add: post_options_def requests_sent_eq fetchOptions_of_def numeral_eq_Suc)

end
